theory Spec2Isabelle
  imports Main "HOL-Library.Word" "HOL-Library.Char_ord" "HOL-Library.List_Lexorder"
    "HOL-Library.Multiset"
begin

unbundle bit_operations_syntax

section \<open>The canonical records\<close>

text \<open>
  Python strings are modelled as \<open>string\<close>: a list of characters with code points below
  256, compared the way Python compares \<open>str\<close> values (lexicographically by code point).
  A dictionary key that the code reads with \<open>.get(key, default)\<close> is an optional field:
  \<open>None\<close> is the key being absent.

  The article dictionary built by both adapters (\<open>scrape_bens_bites.parse_articles\<close>,
  \<open>scrape_rundown.run\<close>). \<open>published_at\<close> holds the ISO-8601 text of the date
  (\<open>pub_date.isoformat()\<close>); \<open>merge_and_dedup\<close> reads it with \<open>.get\<close>.
\<close>

record article =
  article_id :: string
  source :: string
  source_label :: string
  title :: string
  subtitle :: "string option"
  url :: string
  published_at :: "string option"
  summary :: "string option"
  tags :: "string list"
  scraped_at :: string

text \<open>The per-adapter result dictionary; \<open>sr_error\<close> is the optional \<open>error\<close> key.\<close>

record source_result =
  sr_scraped_at :: string
  sr_window_hours :: nat
  sr_article_count :: "nat option"
  sr_articles :: "article list option"
  sr_error :: "string option"

text \<open>The merged dictionary written by the orchestrator.\<close>

record merged_feed =
  mf_scraped_at :: string
  mf_window_hours :: nat
  mf_article_count :: nat
  mf_sources :: "(string \<times> nat) list"
  mf_articles :: "article list"

section \<open>Python library functions the scrapers call\<close>

text \<open>
  The functions of this section are not code of the repository: they are the parts of the
  Python standard library (\<open>str\<close>, \<open>datetime\<close>, \<open>re\<close>, \<open>_strptime\<close>,
  \<open>hashlib\<close>) that the scrapers call, written out as functions so that the scrapers'
  own code can be evaluated on concrete inputs.
\<close>

subsection \<open>str\<close>

text \<open>\<open>str.isspace\<close> of one character, which is also the class \<open>\s\<close> of \<open>re\<close>.\<close>

definition py_isspace :: "char \<Rightarrow> bool" where
  "py_isspace c =
     (let n = (of_char c :: nat)
      in (9 \<le> n \<and> n \<le> 13) \<or> (28 \<le> n \<and> n \<le> 32) \<or> n = 133 \<or> n = 160)"

definition lstrip :: "string \<Rightarrow> string" where
  "lstrip s = dropWhile py_isspace s"

definition rstrip :: "string \<Rightarrow> string" where
  "rstrip s = rev (dropWhile py_isspace (rev s))"

definition strip :: "string \<Rightarrow> string" where
  "strip s = lstrip (rstrip s)"

text \<open>\<open>s.rstrip(chars)\<close>.\<close>

definition rstrip_chars :: "string \<Rightarrow> string \<Rightarrow> string" where
  "rstrip_chars chars s = rev (dropWhile (\<lambda>c. c \<in> set chars) (rev s))"

text \<open>\<open>c.lower()\<close> on the code points below 256.\<close>

definition py_lower_char :: "char \<Rightarrow> char" where
  "py_lower_char c =
     (let n = (of_char c :: nat)
      in if (65 \<le> n \<and> n \<le> 90) \<or> (192 \<le> n \<and> n \<le> 222 \<and> n \<noteq> 215)
         then char_of (n + 32) else c)"

definition py_lower :: "string \<Rightarrow> string" where
  "py_lower s = map py_lower_char s"

text \<open>\<open>sep.join(xs)\<close>.\<close>

fun py_join :: "string \<Rightarrow> string list \<Rightarrow> string" where
  "py_join sep [] = []"
| "py_join sep [x] = x"
| "py_join sep (x # y # ys) = x @ sep @ py_join sep (y # ys)"

text \<open>\<open>sub in s\<close> for strings.\<close>

fun py_in :: "string \<Rightarrow> string \<Rightarrow> bool" where
  "py_in sub [] = (sub = [])"
| "py_in sub (c # cs) = (take (length sub) (c # cs) = sub \<or> py_in sub cs)"

text \<open>\<open>s.replace(old, new)\<close> for a non-empty \<open>old\<close>: every occurrence, left to right.\<close>

function py_replace :: "string \<Rightarrow> string \<Rightarrow> string \<Rightarrow> string" where
  "py_replace old new s =
     (if s = [] \<or> old = [] then s
      else if take (length old) s = old then new @ py_replace old new (drop (length old) s)
      else hd s # py_replace old new (tl s))"
  by pat_completeness auto
termination
  by (relation "measure (\<lambda>(old, new, s). length s)") auto

declare py_replace.simps [simp del]

definition is_digit :: "char \<Rightarrow> bool" where
  "is_digit c = (CHR ''0'' \<le> c \<and> c \<le> CHR ''9'')"

definition digit_val :: "char \<Rightarrow> nat" where
  "digit_val c = of_char c - of_char CHR ''0''"

text \<open>
  \<open>int(s)\<close> on the strings that reach it here: decimal digits, possibly surrounded by
  white space. \<open>None\<close> is \<open>ValueError\<close>.
\<close>

definition py_int :: "string \<Rightarrow> nat option" where
  "py_int s =
     (let t = strip s
      in if t \<noteq> [] \<and> list_all is_digit t
         then Some (foldl (\<lambda>acc c. 10 * acc + digit_val c) 0 t) else None)"

text \<open>The last \<open>w\<close> decimal digits of \<open>n\<close>: \<open>'%0wd' % n\<close> for \<open>n < 10 ^ w\<close>.\<close>

fun zpad :: "nat \<Rightarrow> nat \<Rightarrow> string" where
  "zpad 0 n = []"
| "zpad (Suc w) n = zpad w (n div 10) @ [char_of (of_char CHR ''0'' + n mod 10)]"

subsection \<open>list.sort\<close>

text \<open>
  \<open>list.sort(key=f, reverse=True)\<close> and \<open>sorted(xs, key=f, reverse=True)\<close>: a stable
  sort into descending key order (elements with equal keys keep their original relative
  order). It is modelled as an insertion sort that places an element before the first
  element whose key is not greater.
\<close>

fun insort_desc :: "('a \<Rightarrow> 'k::linorder) \<Rightarrow> 'a \<Rightarrow> 'a list \<Rightarrow> 'a list" where
  "insort_desc f x [] = [x]"
| "insort_desc f x (y # ys) = (if f y \<le> f x then x # y # ys else y # insort_desc f x ys)"

definition sort_desc :: "('a \<Rightarrow> 'k::linorder) \<Rightarrow> 'a list \<Rightarrow> 'a list" where
  "sort_desc f xs = foldr (insort_desc f) xs []"

subsection \<open>datetime\<close>

text \<open>
  A \<open>datetime\<close> object is the number of microseconds of its wall-clock reading since
  \<open>0001-01-01T00:00:00\<close>, with the UTC offset of its \<open>tzinfo\<close> in microseconds
  (\<open>None\<close> for a naive value).
\<close>

record datetime =
  wall_us :: int
  tzinfo :: "int option"

definition is_leap :: "int \<Rightarrow> bool" where
  "is_leap y = (y mod 4 = 0 \<and> (y mod 100 \<noteq> 0 \<or> y mod 400 = 0))"

definition days_before_year :: "int \<Rightarrow> int" where
  "days_before_year year = (let y = year - 1 in y * 365 + y div 4 - y div 100 + y div 400)"

definition days_in_month :: "int \<Rightarrow> int \<Rightarrow> int" where
  "days_in_month year month =
     (if month = 2 \<and> is_leap year then 29
      else [31, 28, 31, 30, 31, 30, 31, 31, 30, 31, 30, 31] ! nat (month - 1))"

definition days_before_month :: "int \<Rightarrow> int \<Rightarrow> int" where
  "days_before_month year month =
     [0, 31, 59, 90, 120, 151, 181, 212, 243, 273, 304, 334] ! nat (month - 1)
       + (if month > 2 \<and> is_leap year then 1 else 0)"

definition ymd2ord :: "int \<Rightarrow> int \<Rightarrow> int \<Rightarrow> int" where
  "ymd2ord year month day = days_before_year year + days_before_month year month + day"

definition us_per_second :: int where "us_per_second = 1000000"
definition us_per_hour :: int where "us_per_hour = 3600 * us_per_second"
definition us_per_day :: int where "us_per_day = 24 * us_per_hour"

text \<open>
  The constructor \<open>datetime(year, month, day, hour, minute, second, microsecond, tzinfo)\<close>
  with \<open>tzinfo = timezone(timedelta(microseconds = off))\<close>; \<open>None\<close> is the
  \<open>ValueError\<close> of a field out of range or of an offset of 24 hours or more.
\<close>

definition mk_datetime ::
  "int \<Rightarrow> int \<Rightarrow> int \<Rightarrow> int \<Rightarrow> int \<Rightarrow> int \<Rightarrow> int \<Rightarrow> int option \<Rightarrow> datetime option" where
  "mk_datetime year month day hour minute second us tz =
     (if 1 \<le> year \<and> year \<le> 9999 \<and> 1 \<le> month \<and> month \<le> 12
         \<and> 1 \<le> day \<and> day \<le> days_in_month year month
         \<and> 0 \<le> hour \<and> hour < 24 \<and> 0 \<le> minute \<and> minute < 60
         \<and> 0 \<le> second \<and> second < 60 \<and> 0 \<le> us \<and> us < us_per_second
         \<and> (case tz of None \<Rightarrow> True | Some off \<Rightarrow> - us_per_day < off \<and> off < us_per_day)
      then Some \<lparr>wall_us =
                    (((ymd2ord year month day - 1) * 24 + hour) * 60 + minute) * 60 * us_per_second
                      + second * us_per_second + us,
                  tzinfo = tz\<rparr>
      else None)"

text \<open>
  \<open>datetime.now(timezone.utc)\<close>: the clock is read as a number of microseconds since
  \<open>1970-01-01T00:00:00+00:00\<close>.
\<close>

definition epoch_wall_us :: int where
  "epoch_wall_us = (ymd2ord 1970 1 1 - 1) * us_per_day"

definition utc_now :: "nat \<Rightarrow> datetime" where
  "utc_now clock = \<lparr>wall_us = epoch_wall_us + int clock, tzinfo = Some 0\<rparr>"

text \<open>\<open>dt - timedelta(hours = h)\<close>.\<close>

definition minus_hours :: "datetime \<Rightarrow> nat \<Rightarrow> datetime" where
  "minus_hours dt h = dt\<lparr>wall_us := wall_us dt - int h * us_per_hour\<rparr>"

text \<open>\<open>dt.replace(tzinfo=timezone.utc)\<close>.\<close>

definition replace_tzinfo_utc :: "datetime \<Rightarrow> datetime" where
  "replace_tzinfo_utc dt = dt\<lparr>tzinfo := Some 0\<rparr>"

text \<open>
  \<open>a < b\<close> on \<open>datetime\<close> values: two aware values compare by their UTC instants, two
  naive ones by their readings, and a naive with an aware one raises \<open>TypeError\<close>
  (\<open>None\<close>).
\<close>

definition utc_us :: "datetime \<Rightarrow> int" where
  "utc_us dt = wall_us dt - (case tzinfo dt of None \<Rightarrow> 0 | Some off \<Rightarrow> off)"

definition dt_less :: "datetime \<Rightarrow> datetime \<Rightarrow> bool option" where
  "dt_less a b =
     (if (tzinfo a = None) = (tzinfo b = None) then Some (utc_us a < utc_us b) else None)"

text \<open>\<open>_ord2ymd\<close> of \<open>datetime.py\<close>: the date of a day number.\<close>

definition ord2ymd :: "int \<Rightarrow> int \<times> int \<times> int" where
  "ord2ymd ordinal =
     (let n = ordinal - 1;
          n400 = n div 146097; n = n mod 146097;
          n100 = n div 36524; n = n mod 36524;
          n4 = n div 1461; n = n mod 1461;
          n1 = n div 365; n = n mod 365;
          year = n400 * 400 + 1 + n100 * 100 + n4 * 4 + n1
      in if n1 = 4 \<or> n100 = 4 then (year - 1, 12, 31)
         else
           (let month = (n + 50) div 32;
                preceding = days_before_month year month
            in if preceding > n
               then (year, month - 1, n - (preceding - days_in_month year (month - 1)) + 1)
               else (year, month, n - preceding + 1)))"

text \<open>
  \<open>dt.isoformat()\<close>: \<open>YYYY-MM-DDTHH:MM:SS[.ffffff][+HH:MM[:SS[.ffffff]]]\<close>.
\<close>

definition format_offset :: "int option \<Rightarrow> string" where
  "format_offset tz =
     (case tz of
        None \<Rightarrow> []
      | Some off \<Rightarrow>
          (let a = \<bar>off\<bar>;
               hh = a div us_per_hour;
               mm = a mod us_per_hour div (60 * us_per_second);
               ss = a mod (60 * us_per_second) div us_per_second;
               us = a mod us_per_second
           in (if off < 0 then ''-'' else ''+'') @ zpad 2 (nat hh) @ '':'' @ zpad 2 (nat mm)
              @ (if ss \<noteq> 0 \<or> us \<noteq> 0
                 then '':'' @ zpad 2 (nat ss) @ (if us \<noteq> 0 then ''.'' @ zpad 6 (nat us) else [])
                 else [])))"

definition isoformat :: "datetime \<Rightarrow> string" where
  "isoformat dt =
     (let days = wall_us dt div us_per_day;
          t = wall_us dt mod us_per_day;
          (y, m, d) = ord2ymd (days + 1);
          hh = t div us_per_hour;
          mm = t mod us_per_hour div (60 * us_per_second);
          ss = t mod (60 * us_per_second) div us_per_second;
          us = t mod us_per_second
      in zpad 4 (nat y) @ ''-'' @ zpad 2 (nat m) @ ''-'' @ zpad 2 (nat d) @ ''T''
         @ zpad 2 (nat hh) @ '':'' @ zpad 2 (nat mm) @ '':'' @ zpad 2 (nat ss)
         @ (if us \<noteq> 0 then ''.'' @ zpad 6 (nat us) else [])
         @ format_offset (tzinfo dt))"

subsection \<open>re\<close>

text \<open>
  The regular expressions the code uses, and the matcher of \<open>re\<close> for them. A pattern is
  matched by backtracking: \<open>rmatch r s\<close> lists every way \<open>r\<close> matches a prefix of
  \<open>s\<close>, in the order in which the matcher tries them (an alternation left to right, an
  optional or repeated part as long as possible first). Each way is the list of named groups
  with the text they matched, and the rest of \<open>s\<close>. \<open>re.match\<close> returns the first way.
\<close>

datatype cclass = Ranges "(char \<times> char) list" | Whitespace

fun in_class :: "cclass \<Rightarrow> char \<Rightarrow> bool" where
  "in_class (Ranges rs) c = list_ex (\<lambda>(lo, hi). lo \<le> c \<and> c \<le> hi) rs"
| "in_class Whitespace c = py_isspace c"

datatype rx =
    Eps
  | Eos
  | Cls cclass
  | Lit char
  | LitI char
  | Seq rx rx
  | Alt rx rx
  | Opt rx
  | Plus cclass
  | Group string rx

text \<open>
  \<open>Eos\<close> is \<open>$\<close> (the end of the string, or just before a final newline), \<open>LitI\<close> a
  literal under \<open>re.IGNORECASE\<close>, \<open>Plus c\<close> is \<open>c+\<close> for a character class.
\<close>

definition ascii_lower :: "char \<Rightarrow> char" where
  "ascii_lower c = (if CHR ''A'' \<le> c \<and> c \<le> CHR ''Z'' then char_of (of_char c + (32::nat)) else c)"

fun rmatch :: "rx \<Rightarrow> string \<Rightarrow> ((string \<times> string) list \<times> string) list" where
  "rmatch Eps s = [([], s)]"
| "rmatch Eos s = (if s = [] \<or> s = [CHR 0x0A] then [([], s)] else [])"
| "rmatch (Cls c) s = (case s of [] \<Rightarrow> [] | x # xs \<Rightarrow> if in_class c x then [([], xs)] else [])"
| "rmatch (Lit c) s = (case s of [] \<Rightarrow> [] | x # xs \<Rightarrow> if x = c then [([], xs)] else [])"
| "rmatch (LitI c) s =
     (case s of [] \<Rightarrow> [] | x # xs \<Rightarrow> if ascii_lower x = ascii_lower c then [([], xs)] else [])"
| "rmatch (Seq a b) s =
     concat (map (\<lambda>m. map (\<lambda>m'. (fst m @ fst m', snd m')) (rmatch b (snd m))) (rmatch a s))"
| "rmatch (Alt a b) s = rmatch a s @ rmatch b s"
| "rmatch (Opt a) s = rmatch a s @ [([], s)]"
| "rmatch (Plus c) s =
     map (\<lambda>n. ([], drop n s)) (rev [1..<Suc (length (takeWhile (in_class c) s))])"
| "rmatch (Group name a) s =
     map (\<lambda>m. ((name, take (length s - length (snd m)) s) # fst m, snd m)) (rmatch a s)"

definition re_match :: "rx \<Rightarrow> string \<Rightarrow> ((string \<times> string) list \<times> string) option" where
  "re_match r s = (case rmatch r s of [] \<Rightarrow> None | m # _ \<Rightarrow> Some m)"

text \<open>Building patterns: a sequence, an alternation, a literal string.\<close>

definition seqs :: "rx list \<Rightarrow> rx" where
  "seqs rs = foldr Seq rs Eps"

fun alts :: "rx list \<Rightarrow> rx" where
  "alts [] = Eps"
| "alts [r] = r"
| "alts (r # r' # rs) = Alt r (alts (r' # rs))"

definition lits :: "string \<Rightarrow> rx" where
  "lits s = seqs (map Lit s)"

definition lits_i :: "string \<Rightarrow> rx" where
  "lits_i s = seqs (map LitI s)"

definition digit :: rx where
  "digit = Cls (Ranges [(CHR ''0'', CHR ''9'')])"

definition between :: "char \<Rightarrow> char \<Rightarrow> rx" where
  "between lo hi = Cls (Ranges [(lo, hi)])"

text \<open>
  \<open>re.findall(r, s)\<close> for a pattern with three groups that matches no empty string: the
  groups of the leftmost match, then those of the matches in the rest of the string.
\<close>

definition group_text :: "(string \<times> string) list \<Rightarrow> string \<Rightarrow> string" where
  "group_text found name = (case map_of found name of None \<Rightarrow> [] | Some t \<Rightarrow> t)"

function findall :: "rx \<Rightarrow> string \<Rightarrow> (string \<times> string \<times> string) list" where
  "findall r s =
     (if s = [] then []
      else (case re_match r s of
              None \<Rightarrow> findall r (tl s)
            | Some (found, rest) \<Rightarrow>
                (group_text found ''1'', group_text found ''2'', group_text found ''3'')
                  # findall r (drop (max 1 (length s - length rest)) s)))"
  by pat_completeness auto
termination
  by (relation "measure (\<lambda>(r, s). length s)") auto

declare findall.simps [simp del]

subsection \<open>datetime.strptime\<close>

text \<open>
  \<open>_strptime\<close> turns the format into a regular expression (\<open>TimeRE.pattern\<close>), matches
  it, case-insensitively, against the start of the data string, refuses data that the match
  does not use up, and builds the \<open>datetime\<close> from the groups. Every failure is a
  \<open>ValueError\<close>, here \<open>None\<close>. The names are those of the C locale. \<open>zones\<close> are the
  machine's own time zone names in lower case (\<open>time.tzname\<close>), which \<open>%Z\<close> accepts
  besides \<open>utc\<close> and \<open>gmt\<close>.
\<close>

definition a_weekday :: "string list" where
  "a_weekday = [''mon'', ''tue'', ''wed'', ''thu'', ''fri'', ''sat'', ''sun'']"

definition a_month :: "string list" where
  "a_month = ['''', ''jan'', ''feb'', ''mar'', ''apr'', ''may'', ''jun'', ''jul'', ''aug'',
     ''sep'', ''oct'', ''nov'', ''dec'']"

definition f_month :: "string list" where
  "f_month = ['''', ''january'', ''february'', ''march'', ''april'', ''may'', ''june'', ''july'',
     ''august'', ''september'', ''october'', ''november'', ''december'']"

text \<open>\<open>__seqToRE\<close>: the names, longest first, as one named group.\<close>

definition seq_to_re :: "string list \<Rightarrow> string \<Rightarrow> rx" where
  "seq_to_re to_convert directive =
     Group directive (alts (map lits_i (sort_desc length to_convert)))"

fun rep_upto :: "nat \<Rightarrow> rx \<Rightarrow> rx" where
  "rep_upto 0 r = Eps"
| "rep_upto (Suc n) r = Opt (Seq r (rep_upto n r))"

text \<open>The entries of \<open>TimeRE\<close> for the directives the scrapers' formats use.\<close>

definition directive_rx :: "string list \<Rightarrow> char \<Rightarrow> rx option" where
  "directive_rx zones d =
     (if d = CHR ''d'' then
        Some (Group ''d'' (alts [Seq (Lit CHR ''3'') (between CHR ''0'' CHR ''1''),
                                Seq (between CHR ''1'' CHR ''2'') digit,
                                Seq (Lit CHR ''0'') (between CHR ''1'' CHR ''9''),
                                between CHR ''1'' CHR ''9'',
                                Seq (Lit CHR '' '') (between CHR ''1'' CHR ''9'')]))
      else if d = CHR ''H'' then
        Some (Group ''H'' (alts [Seq (Lit CHR ''2'') (between CHR ''0'' CHR ''3''),
                                Seq (between CHR ''0'' CHR ''1'') digit,
                                digit]))
      else if d = CHR ''M'' then
        Some (Group ''M'' (alts [Seq (between CHR ''0'' CHR ''5'') digit, digit]))
      else if d = CHR ''S'' then
        Some (Group ''S'' (alts [Seq (Lit CHR ''6'') (between CHR ''0'' CHR ''1''),
                                Seq (between CHR ''0'' CHR ''5'') digit,
                                digit]))
      else if d = CHR ''m'' then
        Some (Group ''m'' (alts [Seq (Lit CHR ''1'') (between CHR ''0'' CHR ''2''),
                                Seq (Lit CHR ''0'') (between CHR ''1'' CHR ''9''),
                                between CHR ''1'' CHR ''9'']))
      else if d = CHR ''Y'' then
        Some (Group ''Y'' (seqs [digit, digit, digit, digit]))
      else if d = CHR ''z'' then
        Some (Group ''z''
          (Alt (seqs [Cls (Ranges [(CHR ''+'', CHR ''+''), (CHR ''-'', CHR ''-'')]), digit, digit,
                      Opt (Lit CHR '':''), between CHR ''0'' CHR ''5'', digit,
                      Opt (seqs [Opt (Lit CHR '':''), between CHR ''0'' CHR ''5'', digit,
                                 Opt (seqs [Lit CHR ''.'', digit, rep_upto 5 digit])])])
               (Lit CHR ''Z'')))
      else if d = CHR ''a'' then Some (seq_to_re a_weekday ''a'')
      else if d = CHR ''b'' then Some (seq_to_re (tl a_month) ''b'')
      else if d = CHR ''B'' then Some (seq_to_re (tl f_month) ''B'')
      else if d = CHR ''Z'' then Some (seq_to_re ([''utc'', ''gmt''] @ zones) ''Z'')
      else None)"

text \<open>
  \<open>TimeRE.pattern\<close>: a run of white space in the format is \<open>\s+\<close>, a directive its
  entry, any other character itself.
\<close>

fun format_rx :: "string list \<Rightarrow> string \<Rightarrow> rx option" where
  "format_rx zones [] = Some Eps"
| "format_rx zones [c] =
     (if c = CHR ''%'' then None
      else if py_isspace c then Some (Seq (Plus Whitespace) Eps)
      else Some (Seq (LitI c) Eps))"
| "format_rx zones (c # d # rest) =
     (if c = CHR ''%'' then
        (case directive_rx zones d of
           None \<Rightarrow> None
         | Some r \<Rightarrow> map_option (Seq r) (format_rx zones rest))
      else if py_isspace c then
        (if py_isspace d then format_rx zones (d # rest)
         else map_option (Seq (Plus Whitespace)) (format_rx zones (d # rest)))
      else map_option (Seq (LitI c)) (format_rx zones (d # rest)))"

text \<open>\<open>xs.index(x)\<close>.\<close>

fun index_of :: "'a list \<Rightarrow> 'a \<Rightarrow> nat option" where
  "index_of [] x = None"
| "index_of (y # ys) x = (if y = x then Some 0 else map_option Suc (index_of ys x))"

text \<open>The offset of a \<open>%z\<close> group, in microseconds.\<close>

definition strip_colons :: "string \<Rightarrow> string option" where
  "strip_colons z =
     (if z ! 3 = CHR '':'' then
        (let z' = take 3 z @ drop 4 z
         in if length z' > 5 then
              (if z' ! 5 \<noteq> CHR '':'' then None else Some (take 5 z' @ drop 6 z'))
            else Some z')
      else Some z)"

definition parse_z :: "string \<Rightarrow> int option" where
  "parse_z z =
     (if z = ''Z'' then Some 0
      else
        (case strip_colons z of
           None \<Rightarrow> None
         | Some z' \<Rightarrow>
             (case (py_int (take 2 (drop 1 z')), py_int (take 2 (drop 3 z')),
                    (if take 2 (drop 5 z') = [] then Some 0 else py_int (take 2 (drop 5 z'))),
                    py_int (drop 8 z' @ replicate (6 - length (drop 8 z')) CHR ''0'')) of
                (Some hours, Some minutes, Some seconds, Some fraction) \<Rightarrow>
                  (let gmtoff = (int hours * 3600 + int minutes * 60 + int seconds) * us_per_second
                                 + int fraction
                   in Some (if hd z' = CHR ''-'' then - gmtoff else gmtoff))
              | _ \<Rightarrow> None)))"

text \<open>A numeric field of the match, or its default when the format has no such directive.\<close>

definition int_field :: "(string \<times> string) list \<Rightarrow> string \<Rightarrow> nat \<Rightarrow> nat option" where
  "int_field found name dflt = (case map_of found name of None \<Rightarrow> Some dflt | Some t \<Rightarrow> py_int t)"

definition month_field :: "(string \<times> string) list \<Rightarrow> nat option" where
  "month_field found =
     (case map_of found ''m'' of
        Some t \<Rightarrow> py_int t
      | None \<Rightarrow>
          (case map_of found ''B'' of
             Some t \<Rightarrow> index_of f_month (py_lower t)
           | None \<Rightarrow>
               (case map_of found ''b'' of
                  Some t \<Rightarrow> index_of a_month (py_lower t)
                | None \<Rightarrow> Some 1)))"

definition tz_field :: "(string \<times> string) list \<Rightarrow> int option option" where
  "tz_field found = (case map_of found ''z'' of None \<Rightarrow> Some None | Some z \<Rightarrow> map_option Some (parse_z z))"

definition strptime :: "string list \<Rightarrow> string \<Rightarrow> string \<Rightarrow> datetime option" where
  "strptime zones data_string fmt =
     (case format_rx zones fmt of
        None \<Rightarrow> None
      | Some r \<Rightarrow>
          (case re_match r data_string of
             None \<Rightarrow> None
           | Some (found, rest) \<Rightarrow>
               if rest \<noteq> [] then None
               else
                 (case (int_field found ''Y'' 1900, month_field found, int_field found ''d'' 1,
                        int_field found ''H'' 0, int_field found ''M'' 0, int_field found ''S'' 0,
                        tz_field found) of
                    (Some year, Some month, Some day, Some hour, Some minute, Some second, Some tz) \<Rightarrow>
                      mk_datetime (int year) (int month) (int day) (int hour) (int minute)
                        (int second) 0 tz
                  | _ \<Rightarrow> None)))"

subsection \<open>hashlib.sha256\<close>

text \<open>\<open>url.encode()\<close>: UTF-8 of the code points below 256.\<close>

definition utf8_encode :: "string \<Rightarrow> 8 word list" where
  "utf8_encode s =
     concat (map (\<lambda>c. let n = (of_char c :: nat)
                       in if n < 128 then [of_nat n]
                          else [of_nat (192 + n div 64), of_nat (128 + n mod 64)]) s)"

text \<open>The round constants and the initial hash value of SHA-256, in decimal.\<close>

definition sha_k :: "32 word list" where
  "sha_k = [
     1116352408, 1899447441, 3049323471, 3921009573, 961987163, 1508970993,
     2453635748, 2870763221, 3624381080, 310598401, 607225278, 1426881987,
     1925078388, 2162078206, 2614888103, 3248222580, 3835390401, 4022224774,
     264347078, 604807628, 770255983, 1249150122, 1555081692, 1996064986,
     2554220882, 2821834349, 2952996808, 3210313671, 3336571891, 3584528711,
     113926993, 338241895, 666307205, 773529912, 1294757372, 1396182291,
     1695183700, 1986661051, 2177026350, 2456956037, 2730485921, 2820302411,
     3259730800, 3345764771, 3516065817, 3600352804, 4094571909, 275423344,
     430227734, 506948616, 659060556, 883997877, 958139571, 1322822218,
     1537002063, 1747873779, 1955562222, 2024104815, 2227730452, 2361852424,
     2428436474, 2756734187, 3204031479, 3329325298]"

definition sha_h0 :: "32 word list" where
  "sha_h0 = [
     1779033703, 3144134277, 1013904242, 2773480762, 1359893119, 2600822924,
     528734635, 1541459225]"

definition sha_pad :: "8 word list \<Rightarrow> 8 word list" where
  "sha_pad msg =
     (let n = length msg; bits = 8 * n
      in msg @ [0x80] @ replicate ((64 - (n + 9) mod 64) mod 64) 0
         @ map (\<lambda>i. of_nat (bits div 256 ^ i mod 256)) (rev [0..<8]))"

definition be32 :: "8 word list \<Rightarrow> 32 word" where
  "be32 bs = foldl (\<lambda>acc b. push_bit 8 acc OR ucast b) 0 bs"

function chunks :: "nat \<Rightarrow> 'a list \<Rightarrow> 'a list list" where
  "chunks n xs = (if n = 0 \<or> xs = [] then [] else take n xs # chunks n (drop n xs))"
  by pat_completeness auto
termination
  by (relation "measure (\<lambda>(n, xs). length xs)") auto

declare chunks.simps [simp del]

definition small_sigma0 :: "32 word \<Rightarrow> 32 word" where
  "small_sigma0 x = word_rotr 7 x XOR word_rotr 18 x XOR drop_bit 3 x"

definition small_sigma1 :: "32 word \<Rightarrow> 32 word" where
  "small_sigma1 x = word_rotr 17 x XOR word_rotr 19 x XOR drop_bit 10 x"

definition big_sigma0 :: "32 word \<Rightarrow> 32 word" where
  "big_sigma0 x = word_rotr 2 x XOR word_rotr 13 x XOR word_rotr 22 x"

definition big_sigma1 :: "32 word \<Rightarrow> 32 word" where
  "big_sigma1 x = word_rotr 6 x XOR word_rotr 11 x XOR word_rotr 25 x"

fun schedule :: "nat \<Rightarrow> 32 word list \<Rightarrow> 32 word list" where
  "schedule 0 w = w"
| "schedule (Suc n) w =
     (let l = length w
      in schedule n (w @ [small_sigma1 (w ! (l - 2)) + w ! (l - 7)
                           + small_sigma0 (w ! (l - 15)) + w ! (l - 16)]))"

fun sha_round :: "32 word \<times> 32 word \<Rightarrow> 32 word list \<Rightarrow> 32 word list" where
  "sha_round (k, w) [a, b, c, d, e, f, g, h] =
     (let t1 = h + big_sigma1 e + ((e AND f) XOR (NOT e AND g)) + k + w;
          t2 = big_sigma0 a + ((a AND b) XOR (a AND c) XOR (b AND c))
      in [t1 + t2, a, b, c, d + t1, e, f, g])"
| "sha_round (k, w) st = st"

definition sha_block :: "8 word list \<Rightarrow> 32 word list \<Rightarrow> 32 word list" where
  "sha_block block hs =
     (let w = schedule 48 (map be32 (chunks 4 block))
      in map2 (+) hs (fold sha_round (zip sha_k w) hs))"

definition sha256 :: "8 word list \<Rightarrow> 32 word list" where
  "sha256 msg = fold sha_block (chunks 64 (sha_pad msg)) sha_h0"

definition hex_digit :: "nat \<Rightarrow> char" where
  "hex_digit n = ''0123456789abcdef'' ! n"

definition hex32 :: "32 word \<Rightarrow> string" where
  "hex32 w = map (\<lambda>i. hex_digit (unat (drop_bit (4 * i) w AND 15))) (rev [0..<8])"

definition hexdigest :: "32 word list \<Rightarrow> string" where
  "hexdigest hs = concat (map hex32 hs)"

section \<open>The environment of a run\<close>

text \<open>
  What a run reads from outside: the clock (each \<open>datetime.now(timezone.utc)\<close> is a
  reading in microseconds since the Unix epoch), the machine's time zone names, the network
  (\<open>urlopen\<close> gives the decoded text of a URL, or \<open>None\<close> when it raises
  \<open>URLError\<close>), and the two parsers of the standard library: \<open>ET.fromstring\<close> and the
  tokenizer of \<open>HTMLParser.feed\<close>, which calls the handlers of a parser object with the
  events of a document. Writing the JSON files, the error log, \<open>print\<close> and
  \<open>time.sleep\<close> do not change what the functions return and are left out.
\<close>

datatype html_event =
    StartTag string "(string \<times> string option) list"
  | EndTag string
  | Data string

text \<open>
  An \<open>item\<close> element of the feed: for each child the code looks up, whether it is there
  (\<open>find\<close> returns \<open>None\<close> otherwise) and its \<open>text\<close> (which may be \<open>None\<close>).
\<close>

record rss_item =
  item_title :: "string option option"
  item_link :: "string option option"
  item_description :: "string option option"
  item_pubDate :: "string option option"
  item_categories :: "string option list"

text \<open>
  \<open>ET.fromstring\<close>: \<open>ParseError\<close>, or a root whose \<open>channel\<close> child, if any, holds
  the items.
\<close>

datatype xml_doc = ParseError | Root "rss_item list option"

record env =
  tzname :: "string list"
  orchestrator_clock :: nat
  bens_bites_clock :: nat
  parse_articles_clock :: nat
  rundown_clock :: nat
  urlopen :: "string \<Rightarrow> string option"
  et_fromstring :: "string \<Rightarrow> xml_doc"
  html_feed :: "string \<Rightarrow> html_event list"

datatype py_error = AttributeError

section \<open>scrape\_bens\_bites.py\<close>

definition RSS_URL :: string where
  "RSS_URL = ''https://www.bensbites.com/feed''"

definition WINDOW_HOURS :: nat where
  "WINDOW_HOURS = 48"

text \<open>
  \<open>HTMLStripper\<close> keeps the data events of the document in \<open>fed\<close>; \<open>get_data\<close> joins
  them with a space and strips the result.
\<close>

definition fed :: "html_event list \<Rightarrow> string list" where
  "fed events = concat (map (\<lambda>e. case e of Data d \<Rightarrow> [d] | _ \<Rightarrow> []) events)"

definition get_data :: "html_event list \<Rightarrow> string" where
  "get_data events = strip (py_join '' '' (fed events))"

definition strip_html :: "env \<Rightarrow> string \<Rightarrow> string" where
  "strip_html e html_string =
     (let text = get_data (html_feed e html_string)
      in if length text > 300 then take 300 text @ ''...'' else text)"

definition make_id :: "string \<Rightarrow> string" where
  "make_id url_str = take 16 (hexdigest (sha256 (utf8_encode url_str)))"

text \<open>
  The loop of \<open>parse_rss_date\<close> and of \<open>parse_article_date\<close> over \<open>formats\<close>: the
  first format that \<open>strptime\<close> accepts decides; \<open>ValueError\<close> moves on to the next.
\<close>

fun first_parse :: "(datetime \<Rightarrow> datetime) \<Rightarrow> string list \<Rightarrow> string \<Rightarrow> string list \<Rightarrow> datetime option" where
  "first_parse post zones s [] = None"
| "first_parse post zones s (fmt # fmts) =
     (case strptime zones s fmt of
        Some dt \<Rightarrow> Some (post dt)
      | None \<Rightarrow> first_parse post zones s fmts)"

definition rss_formats :: "string list" where
  "rss_formats =
     [''%a, %d %b %Y %H:%M:%S %z'',
      ''%a, %d %b %Y %H:%M:%S %Z'',
      ''%d %b %Y %H:%M:%S %z'']"

definition parse_rss_date :: "string list \<Rightarrow> string \<Rightarrow> datetime option" where
  "parse_rss_date zones date_str = first_parse (\<lambda>dt. dt) zones (strip date_str) rss_formats"

definition fetch_rss :: "env \<Rightarrow> string option" where
  "fetch_rss e = urlopen e RSS_URL"

text \<open>
  \<open>if pub_date.tzinfo is None: pub_date = pub_date.replace(tzinfo=timezone.utc)\<close>, in
  both adapters.
\<close>

definition ensure_aware :: "datetime \<Rightarrow> datetime" where
  "ensure_aware dt = (if tzinfo dt = None then replace_tzinfo_utc dt else dt)"

text \<open>
  \<open>el.text.strip() if el is not None and el.text else None\<close>, and Python's truth value of
  an optional string.
\<close>

definition stripped_text :: "string option option \<Rightarrow> string option" where
  "stripped_text el =
     (case el of Some (Some t) \<Rightarrow> if t \<noteq> [] then Some (strip t) else None | _ \<Rightarrow> None)"

definition element_text :: "string option option \<Rightarrow> string option" where
  "element_text el = (case el of None \<Rightarrow> None | Some t \<Rightarrow> t)"

definition truthy :: "string option \<Rightarrow> bool" where
  "truthy s = (case s of None \<Rightarrow> False | Some t \<Rightarrow> t \<noteq> [])"

text \<open>
  The body of the loop of \<open>parse_articles\<close> for one item: the article it appends, or
  \<open>None\<close> when the item is skipped.
\<close>

definition parse_item :: "env \<Rightarrow> string \<Rightarrow> datetime \<Rightarrow> rss_item \<Rightarrow> article option" where
  "parse_item e scraped cutoff item =
     (let title_v = stripped_text (item_title item);
          url_v = stripped_text (item_link item);
          description = element_text (item_description item);
          date_str = element_text (item_pubDate item);
          tags_v = concat (map (\<lambda>c. case c of None \<Rightarrow> [] | Some t \<Rightarrow> if t \<noteq> [] then [strip t] else [])
                     (item_categories item))
      in if \<not> truthy title_v \<or> \<not> truthy url_v then None
         else
           (case (if truthy date_str then parse_rss_date (tzname e) (the date_str) else None) of
              None \<Rightarrow> None
            | Some parsed \<Rightarrow>
                (let pub_date = ensure_aware parsed
                 in case dt_less pub_date cutoff of
                      None \<Rightarrow> None
                    | Some True \<Rightarrow> None
                    | Some False \<Rightarrow>
                        Some \<lparr>article_id = make_id (the url_v),
                              source = ''bens_bites'',
                              source_label = ''Ben's Bites'',
                              title = the title_v,
                              subtitle = None,
                              url = the url_v,
                              published_at = Some (isoformat pub_date),
                              summary = (if truthy description
                                         then Some (strip_html e (the description)) else None),
                              tags = tags_v,
                              scraped_at = scraped\<rparr>)))"

definition parse_articles :: "env \<Rightarrow> string \<Rightarrow> datetime \<Rightarrow> article list" where
  "parse_articles e xml_content cutoff =
     (let scraped = isoformat (utc_now (parse_articles_clock e))
      in case et_fromstring e xml_content of
           ParseError \<Rightarrow> []
         | Root None \<Rightarrow> []
         | Root (Some items) \<Rightarrow> List.map_filter (parse_item e scraped cutoff) items)"

definition bens_bites_run :: "env \<Rightarrow> source_result" where
  "bens_bites_run e =
     (let now = utc_now (bens_bites_clock e);
          cutoff = minus_hours now WINDOW_HOURS;
          scraped = isoformat now
      in case fetch_rss e of
           None \<Rightarrow>
             \<lparr>sr_scraped_at = scraped, sr_window_hours = WINDOW_HOURS,
              sr_article_count = Some 0, sr_articles = Some [],
              sr_error = Some ''Failed to fetch RSS feed''\<rparr>
         | Some xml_content \<Rightarrow>
             (let articles = parse_articles e xml_content cutoff
              in \<lparr>sr_scraped_at = scraped, sr_window_hours = WINDOW_HOURS,
                  sr_article_count = Some (length articles), sr_articles = Some articles,
                  sr_error = None\<rparr>))"

section \<open>scrape\_rundown.py\<close>

definition HOME_URL :: string where
  "HOME_URL = ''https://www.therundown.ai''"

definition rundown_WINDOW_HOURS :: nat where
  "rundown_WINDOW_HOURS = 48"

definition rundown_make_id :: "string \<Rightarrow> string" where
  "rundown_make_id url_str = take 16 (hexdigest (sha256 (utf8_encode url_str)))"

definition fetch_url :: "env \<Rightarrow> string \<Rightarrow> string option" where
  "fetch_url e url_str = urlopen e url_str"

text \<open>\<open>dict(attrs).get(key)\<close>: the last pair with the key decides.\<close>

definition attrs_get :: "(string \<times> string option) list \<Rightarrow> string \<Rightarrow> string option option" where
  "attrs_get attrs key = map_of (rev attrs) key"

text \<open>\<open>dict(attrs).get(key, '')\<close>; the value of an attribute written without one is \<open>None\<close>.\<close>

definition attrs_get_default :: "(string \<times> string option) list \<Rightarrow> string \<Rightarrow> string option" where
  "attrs_get_default attrs key = (case attrs_get attrs key of None \<Rightarrow> Some [] | Some v \<Rightarrow> v)"

text \<open>The pattern \<open>^/p/[a-z0-9\-]+$\<close> of \<open>ArticleLinkParser\<close>.\<close>

definition link_rx :: rx where
  "link_rx =
     seqs [lits ''/p/'',
           Plus (Ranges [(CHR ''a'', CHR ''z''), (CHR ''0'', CHR ''9''), (CHR ''-'', CHR ''-'')]),
           Eos]"

text \<open>\<open>ArticleLinkParser.handle_starttag\<close>; the state is \<open>self.links\<close>.\<close>

definition link_starttag :: "string \<Rightarrow> (string \<times> string option) list \<Rightarrow> string list \<Rightarrow> string list" where
  "link_starttag tag attrs links =
     (if tag = ''a'' then
        (let href = attrs_get_default attrs ''href''
         in if truthy href \<and> re_match link_rx (the href) \<noteq> None then
              (let full_url = HOME_URL @ the href
               in if full_url \<notin> set links then links @ [full_url] else links)
            else links)
      else links)"

definition link_event :: "html_event \<Rightarrow> string list \<Rightarrow> string list" where
  "link_event ev links = (case ev of StartTag tag attrs \<Rightarrow> link_starttag tag attrs links | _ \<Rightarrow> links)"

definition article_links :: "html_event list \<Rightarrow> string list" where
  "article_links events = fold link_event events []"

text \<open>
  \<open>ArticleMetaParser\<close>: \<open>self.meta\<close> with its three keys (a key is absent, or holds the
  \<open>content\<close> attribute, which is \<open>None\<close> when written without a value) and
  \<open>self._body_dates\<close>.
\<close>

record meta_parser =
  meta_title :: "string option option"
  meta_description :: "string option option"
  published_at_meta :: "string option"
  body_dates :: "string list"

definition new_meta_parser :: meta_parser where
  "new_meta_parser =
     \<lparr>meta_title = None, meta_description = None, published_at_meta = None, body_dates = []\<rparr>"

text \<open>\<open>a or b\<close> on optional strings.\<close>

definition py_or :: "string option \<Rightarrow> string option \<Rightarrow> string option" where
  "py_or a b = (if truthy a then a else b)"

definition meta_starttag :: "string \<Rightarrow> (string \<times> string option) list \<Rightarrow> meta_parser \<Rightarrow> meta_parser" where
  "meta_starttag tag attrs p =
     (if tag = ''meta'' then
        (let name = py_or (element_text (attrs_get attrs ''name'')) (attrs_get_default attrs ''property'');
             content = attrs_get_default attrs ''content''
         in if name \<in> {Some ''og:title'', Some ''twitter:title''} \<and> meta_title p = None
              then p\<lparr>meta_title := Some content\<rparr>
            else if name \<in> {Some ''og:description'', Some ''twitter:description'', Some ''description''}
                    \<and> meta_description p = None
              then p\<lparr>meta_description := Some content\<rparr>
            else if name \<in> {Some ''article:published_time'', Some ''og:article:published_time''}
              then (if truthy content \<and> py_in ''202'' (the content)
                    then p\<lparr>published_at_meta := content\<rparr> else p)
            else p)
      else p)"

text \<open>
  The date pattern of \<open>handle_data\<close>: a month name, an optional period, white space, one or
  two digits, an optional comma, white space, and a year \<open>20dd\<close>.
\<close>

definition month_rx :: rx where
  "month_rx =
     alts [Seq (lits ''Jan'') (Opt (lits ''uary'')), Seq (lits ''Feb'') (Opt (lits ''ruary'')),
           Seq (lits ''Mar'') (Opt (lits ''ch'')), Seq (lits ''Apr'') (Opt (lits ''il'')),
           lits ''May'', Seq (lits ''Jun'') (Opt (lits ''e'')), Seq (lits ''Jul'') (Opt (lits ''y'')),
           Seq (lits ''Aug'') (Opt (lits ''ust'')), Seq (lits ''Sep'') (Opt (lits ''tember'')),
           Seq (lits ''Oct'') (Opt (lits ''ober'')), Seq (lits ''Nov'') (Opt (lits ''ember'')),
           Seq (lits ''Dec'') (Opt (lits ''ember''))]"

definition date_rx :: rx where
  "date_rx =
     seqs [Group ''1'' month_rx, Opt (Lit CHR ''.''), Plus Whitespace,
           Group ''2'' (Alt (Seq digit digit) digit), Opt (Lit CHR '',''), Plus Whitespace,
           Group ''3'' (seqs [Lit CHR ''2'', Lit CHR ''0'', digit, digit])]"

definition meta_data :: "string \<Rightarrow> meta_parser \<Rightarrow> meta_parser" where
  "meta_data data p =
     p\<lparr>body_dates := body_dates p
          @ map (\<lambda>(m0, m1, m2). m0 @ '' '' @ m1 @ '', '' @ m2) (findall date_rx (strip data))\<rparr>"

definition meta_event :: "html_event \<Rightarrow> meta_parser \<Rightarrow> meta_parser" where
  "meta_event ev p =
     (case ev of StartTag tag attrs \<Rightarrow> meta_starttag tag attrs p
               | Data data \<Rightarrow> meta_data data p
               | EndTag tag \<Rightarrow> p)"

definition meta_feed :: "html_event list \<Rightarrow> meta_parser" where
  "meta_feed events = fold meta_event events new_meta_parser"

definition get_best_date :: "meta_parser \<Rightarrow> string option" where
  "get_best_date p = (case body_dates p of d # _ \<Rightarrow> Some d | [] \<Rightarrow> published_at_meta p)"

definition article_formats :: "string list" where
  "article_formats =
     [''%Y-%m-%dT%H:%M:%S%z'',
      ''%Y-%m-%dT%H:%M:%SZ'',
      ''%Y-%m-%d'',
      ''%b %d %Y'',
      ''%B %d %Y'',
      ''%b %d, %Y'',
      ''%B %d, %Y'',
      ''%b. %d %Y'']"

definition parse_article_date :: "string list \<Rightarrow> string \<Rightarrow> datetime option" where
  "parse_article_date zones raw =
     first_parse ensure_aware zones (rstrip_chars '','' (strip raw)) article_formats"

text \<open>
  The dictionary \<open>scrape_article_metadata\<close> returns. The function returns \<open>None\<close> when
  the page cannot be fetched or has no title, and raises \<open>AttributeError\<close> when a title
  or description tag has no \<open>content\<close> value (\<open>None.replace\<close>, \<open>None.strip\<close>).
\<close>

record article_meta =
  am_title :: string
  am_description :: string
  am_published_at :: "datetime option"

definition scrape_article_metadata :: "env \<Rightarrow> string \<Rightarrow> py_error + article_meta option" where
  "scrape_article_metadata e url_str =
     (case fetch_url e url_str of
        None \<Rightarrow> Inr None
      | Some html \<Rightarrow>
          if html = [] then Inr None
          else
            (let parser = meta_feed (html_feed e html);
                 best_date_raw = get_best_date parser
             in case (case meta_title parser of None \<Rightarrow> Some [] | Some v \<Rightarrow> v) of
                  None \<Rightarrow> Inl AttributeError
                | Some t \<Rightarrow>
                    (let title_v = strip (py_replace '' | The Rundown AI'' [] t)
                     in case (case meta_description parser of None \<Rightarrow> Some [] | Some v \<Rightarrow> v) of
                          None \<Rightarrow> Inl AttributeError
                        | Some d \<Rightarrow>
                            (let description = strip d;
                                 pub_date = (if truthy best_date_raw
                                             then parse_article_date (tzname e) (the best_date_raw)
                                             else None)
                             in if title_v = [] then Inr None
                                else Inr (Some
                                  \<lparr>am_title = title_v,
                                   am_description = (if length description > 300
                                                     then take 300 description @ ''...''
                                                     else description),
                                   am_published_at = pub_date\<rparr>)))))"

text \<open>
  The body of the loop of \<open>run\<close> for one URL: the article it appends, or \<open>None\<close> when
  the URL is skipped (also when the body raises: the loop catches every exception).
\<close>

definition rundown_article :: "env \<Rightarrow> datetime \<Rightarrow> datetime \<Rightarrow> string \<Rightarrow> string \<Rightarrow> article option" where
  "rundown_article e now cutoff scraped url_str =
     (case scrape_article_metadata e url_str of
        Inl err \<Rightarrow> None
      | Inr None \<Rightarrow> None
      | Inr (Some meta) \<Rightarrow>
          (let pub_date = ensure_aware (case am_published_at meta of None \<Rightarrow> now | Some dt \<Rightarrow> dt)
           in case dt_less pub_date cutoff of
                None \<Rightarrow> None
              | Some True \<Rightarrow> None
              | Some False \<Rightarrow>
                  Some \<lparr>article_id = rundown_make_id url_str,
                        source = ''rundown_ai'',
                        source_label = ''The AI Rundown'',
                        title = am_title meta,
                        subtitle = None,
                        url = url_str,
                        published_at = Some (isoformat pub_date),
                        summary = Some (am_description meta),
                        tags = [''AI'', ''Tech''],
                        scraped_at = scraped\<rparr>))"

definition rundown_run :: "env \<Rightarrow> source_result" where
  "rundown_run e =
     (let now = utc_now (rundown_clock e);
          cutoff = minus_hours now rundown_WINDOW_HOURS;
          scraped = isoformat now
      in case fetch_url e HOME_URL of
           None \<Rightarrow>
             \<lparr>sr_scraped_at = scraped, sr_window_hours = rundown_WINDOW_HOURS,
              sr_article_count = Some 0, sr_articles = Some [],
              sr_error = Some ''Failed to fetch homepage''\<rparr>
         | Some html \<Rightarrow>
             (let article_urls = take 15 (article_links (html_feed e html));
                  articles = List.map_filter (rundown_article e now cutoff scraped) article_urls
              in \<lparr>sr_scraped_at = scraped, sr_window_hours = rundown_WINDOW_HOURS,
                  sr_article_count = Some (length articles), sr_articles = Some articles,
                  sr_error = None\<rparr>))"

section \<open>run\_scrapers.py: merge, deduplicate, sort\<close>

text \<open>\<open>r.get('articles', [])\<close> and \<open>r.get('article_count', 0)\<close>.\<close>

definition get_articles :: "source_result \<Rightarrow> article list" where
  "get_articles r = (case sr_articles r of None \<Rightarrow> [] | Some xs \<Rightarrow> xs)"

definition get_article_count :: "source_result \<Rightarrow> nat" where
  "get_article_count r = (case sr_article_count r of None \<Rightarrow> 0 | Some n \<Rightarrow> n)"

text \<open>
  The body of the inner loop of \<open>merge_and_dedup\<close>: the state is the pair
  \<open>(seen_ids, merged)\<close>.
\<close>

fun merge_article :: "article \<Rightarrow> string set \<times> article list \<Rightarrow> string set \<times> article list" where
  "merge_article a (seen_ids, merged) =
     (if article_id a \<notin> seen_ids then (insert (article_id a) seen_ids, merged @ [a])
      else (seen_ids, merged))"

definition merge_result :: "source_result \<Rightarrow> string set \<times> article list \<Rightarrow> string set \<times> article list" where
  "merge_result r st = fold merge_article (get_articles r) st"

definition merge_loop :: "source_result list \<Rightarrow> string set \<times> article list" where
  "merge_loop results = fold merge_result results ({}, [])"

definition epoch_iso :: string where
  "epoch_iso = ''1970-01-01T00:00:00+00:00''"

text \<open>\<open>sort_key\<close> (renamed: the name is taken in HOL): \<open>a.get('published_at', '1970-01-01T00:00:00+00:00')\<close>.\<close>

definition published_key :: "article \<Rightarrow> string" where
  "published_key a = (case published_at a of None \<Rightarrow> epoch_iso | Some s \<Rightarrow> s)"

definition merge_and_dedup :: "source_result list \<Rightarrow> article list" where
  "merge_and_dedup results = sort_desc published_key (snd (merge_loop results))"


text \<open>
  \<open>run\<close> of the orchestrator: the Ben's Bites adapter runs first, then the Rundown
  adapter; \<open>merge\<close> is the dictionary built from their results.
\<close>

definition merge :: "datetime \<Rightarrow> source_result \<Rightarrow> source_result \<Rightarrow> merged_feed" where
  "merge now bb_result rd_result =
     (let results = [bb_result, rd_result];
          articles = merge_and_dedup results
      in \<lparr>mf_scraped_at = isoformat now,
          mf_window_hours = 24,
          mf_article_count = length articles,
          mf_sources = [(''bens_bites'', get_article_count bb_result),
                        (''rundown_ai'', get_article_count rd_result)],
          mf_articles = articles\<rparr>)"

definition run :: "env \<Rightarrow> merged_feed" where
  "run e = merge (utc_now (orchestrator_clock e)) (bens_bites_run e) (rundown_run e)"

text \<open>
  Two definitions used to state the properties: the articles of a list that \<open>merge_loop\<close>
  keeps when the ids in \<open>seen\<close> have been met already, and an article with the default
  of the sort key written into its \<open>published_at\<close> field.
\<close>

fun first_seen :: "string set \<Rightarrow> article list \<Rightarrow> article list" where
  "first_seen seen [] = []"
| "first_seen seen (a # xs) =
     (if article_id a \<in> seen then first_seen seen xs
      else a # first_seen (insert (article_id a) seen) xs)"



text \<open>
  The length cap as the specification words it: the text truncated to a budget of 300
  characters, with a trailing ellipsis marker when it was truncated.
\<close>

definition length_capped :: "string \<Rightarrow> string" where
  "length_capped text = (if length text \<le> 300 then text else take 300 text @ ''...'')"


definition published_time_tag :: "html_event \<Rightarrow> string option" where
  "published_time_tag ev =
     (case ev of
        StartTag tag attrs \<Rightarrow>
          if tag = ''meta''
             \<and> py_or (element_text (attrs_get attrs ''name'')) (attrs_get_default attrs ''property'')
                 \<in> {Some ''article:published_time'', Some ''og:article:published_time''}
          then attrs_get_default attrs ''content'' else None
      | _ \<Rightarrow> None)"

definition accepted_meta_times :: "html_event list \<Rightarrow> string list" where
  "accepted_meta_times events =
     filter (\<lambda>c. c \<noteq> [] \<and> py_in ''202'' c)
       (concat (map (\<lambda>ev. case published_time_tag ev of None \<Rightarrow> [] | Some c \<Rightarrow> [c]) events))"

section \<open>An example run\<close>

text \<open>
  A run on 21 February 2026 at 10:00 UTC in which the feed has one item and the homepage
  links to one article, both with the same URL. The article page has a title, a stale
  \<open>article:published_time\<close> and the date \<open>Feb 20, 2026\<close> in its text.
\<close>

definition example_url :: string where
  "example_url = ''https://www.therundown.ai/p/agents-at-work''"

definition example_item :: rss_item where
  "example_item =
     \<lparr>item_title = Some (Some ''Agents at work''),
      item_link = Some (Some ''https://www.therundown.ai/p/agents-at-work''),
      item_description = Some (Some ''<p>Hello</p>''),
      item_pubDate = Some (Some ''Sat, 21 Feb 2026 09:00:00 GMT''),
      item_categories = [Some ''AI'']\<rparr>"

definition example_page :: "html_event list" where
  "example_page =
     [StartTag ''meta'' [(''property'', Some ''og:title''),
                         (''content'', Some ''Agents at work | The Rundown AI'')],
      StartTag ''meta'' [(''property'', Some ''article:published_time''),
                         (''content'', Some ''2019-01-01T00:00:00Z'')],
      Data ''Feb 20, 2026'']"

definition example_env :: env where
  "example_env =
     \<lparr>tzname = [''utc''],
      orchestrator_clock = 1771668000000000,
      bens_bites_clock = 1771668000000000,
      parse_articles_clock = 1771668000000000,
      rundown_clock = 1771668000000000,
      urlopen = (\<lambda>u. if u = RSS_URL then Some ''rss''
                      else if u = HOME_URL then Some ''home''
                      else if u = example_url then Some ''page''
                      else None),
      et_fromstring = (\<lambda>s. Root (Some [example_item])),
      html_feed = (\<lambda>s. if s = ''home'' then [StartTag ''a'' [(''href'', Some ''/p/agents-at-work'')]]
                        else if s = ''page'' then example_page
                        else [Data ''Hello''])\<rparr>"

text \<open>The articles the two adapters make in this run.\<close>

definition example_bens_bites_article :: article where
  "example_bens_bites_article =
     \<lparr>article_id = make_id example_url, source = ''bens_bites'', source_label = ''Ben's Bites'',
      title = ''Agents at work'', subtitle = None, url = example_url,
      published_at = Some ''2026-02-21T09:00:00+00:00'', summary = Some ''Hello'',
      tags = [''AI''], scraped_at = ''2026-02-21T10:00:00+00:00''\<rparr>"

definition example_rundown_article :: article where
  "example_rundown_article =
     \<lparr>article_id = make_id example_url, source = ''rundown_ai'', source_label = ''The AI Rundown'',
      title = ''Agents at work'', subtitle = None, url = example_url,
      published_at = Some ''2026-02-20T00:00:00+00:00'', summary = Some [],
      tags = [''AI'', ''Tech''], scraped_at = ''2026-02-21T10:00:00+00:00''\<rparr>"




section \<open>Properties of the merge\<close>

lemma fold_merge_article:
  "fold merge_article xs (seen, merged) =
     (seen \<union> article_id ` set xs, merged @ first_seen seen xs)"
  by (induction xs arbitrary: seen merged) auto

lemma first_seen_append:
  "first_seen seen (xs @ ys) = first_seen seen xs @ first_seen (seen \<union> article_id ` set xs) ys"
  by (induction xs arbitrary: seen) (auto simp: insert_absorb)

lemma merge_result_eq:
  "merge_result r (seen, merged) =
     (seen \<union> article_id ` set (get_articles r), merged @ first_seen seen (get_articles r))"
  by (simp add: merge_result_def fold_merge_article)

lemma fold_merge_result:
  "fold merge_result rs (seen, merged) =
     (seen \<union> article_id ` set (concat (map get_articles rs)),
      merged @ first_seen seen (concat (map get_articles rs)))"
proof (induction rs arbitrary: seen merged)
  case Nil
  then show ?case by simp
next
  case (Cons r rs)
  show ?case
    by (simp add: merge_result_eq Cons first_seen_append Un_assoc image_Un)
qed

lemma merge_loop_first_seen:
  "snd (merge_loop results) = first_seen {} (concat (map get_articles results))"
  by (simp add: merge_loop_def fold_merge_result)

lemma first_seen_ids: "article_id ` set (first_seen seen xs) = article_id ` set xs - seen"
  by (induction xs arbitrary: seen) auto


lemma first_seen_distinct: "distinct (map article_id (first_seen seen xs))"
  by (induction xs arbitrary: seen) (auto simp: first_seen_ids)

lemma first_seen_filter:
  "filter (\<lambda>c. article_id c = i) (first_seen seen xs) =
     (if i \<in> seen then [] else
        (case find (\<lambda>c. article_id c = i) xs of None \<Rightarrow> [] | Some c \<Rightarrow> [c]))"
proof (induction xs arbitrary: seen)
  case Nil
  then show ?case by simp
next
  case (Cons a xs)
  show ?case
    by (auto simp: Cons split: option.splits)
qed

lemma mset_insort_desc: "mset (insort_desc f x xs) = add_mset x (mset xs)"
  by (induction xs) auto

lemma mset_sort_desc: "mset (sort_desc f xs) = mset xs"
  by (induction xs) (auto simp: sort_desc_def mset_insort_desc)








lemma distinct_sort_desc:
  "distinct (map g (sort_desc f xs)) = distinct (map g xs)"
proof -
  have "mset (map g (sort_desc f xs)) = mset (map g xs)"
    by (simp add: mset_sort_desc)
  then show ?thesis by (metis distinct_count_atmost_1 set_mset_mset)
qed

lemma filter_sort_desc_single:
  "filter P xs = [c] \<Longrightarrow> filter P (sort_desc f xs) = [c]"
proof -
  assume h: "filter P xs = [c]"
  have "mset (filter P (sort_desc f xs)) = mset (filter P xs)"
    by (simp add: mset_sort_desc)
  with h have "mset (filter P (sort_desc f xs)) = {#c#}" by simp
  then show ?thesis by (metis mset_single_iff_right)
qed



lemma merge_and_dedup_eq:
  "merge_and_dedup results =
     sort_desc published_key (first_seen {} (concat (map get_articles results)))"
  by (simp add: merge_and_dedup_def merge_loop_first_seen)



section \<open>Properties of the adapters and of the merged feed\<close>

lemma rundown_make_id_eq: "rundown_make_id u = make_id u"
  by (simp add: rundown_make_id_def make_id_def)

lemma parse_item_Some:
  "parse_item e scraped cutoff item = Some a \<Longrightarrow>
     source a = ''bens_bites'' \<and> article_id a = make_id (url a)"
  by (auto simp: parse_item_def Let_def split: if_splits option.splits bool.splits)

lemma map_filter_set: "set (List.map_filter f xs) = {y. \<exists>x \<in> set xs. f x = Some y}"
  by (induction xs) (auto simp: List.map_filter_simps split: option.splits)

lemma parse_articles_member:
  "a \<in> set (parse_articles e xml cutoff) \<Longrightarrow>
     source a = ''bens_bites'' \<and> article_id a = make_id (url a)"
  by (auto simp: parse_articles_def Let_def map_filter_set split: xml_doc.splits option.splits
      dest: parse_item_Some)

lemma get_articles_bens_bites_run:
  "get_articles (bens_bites_run e) =
     (case fetch_rss e of
        None \<Rightarrow> []
      | Some xml \<Rightarrow> parse_articles e xml (minus_hours (utc_now (bens_bites_clock e)) WINDOW_HOURS))"
  by (simp add: bens_bites_run_def get_articles_def Let_def split: option.splits)

lemma bens_bites_member:
  "a \<in> set (get_articles (bens_bites_run e)) \<Longrightarrow>
     source a = ''bens_bites'' \<and> article_id a = make_id (url a)"
  by (auto simp: get_articles_bens_bites_run split: option.splits dest: parse_articles_member)

lemma bens_bites_count:
  "get_article_count (bens_bites_run e) = length (get_articles (bens_bites_run e))"
  by (simp add: bens_bites_run_def get_articles_def get_article_count_def Let_def split: option.splits)

lemma rundown_article_Some:
  "rundown_article e now cutoff scraped u = Some a \<Longrightarrow>
     source a = ''rundown_ai'' \<and> url a = u \<and> article_id a = make_id u"
  by (auto simp: rundown_article_def Let_def rundown_make_id_eq
      split: sum.splits option.splits bool.splits)

lemma get_articles_rundown_run:
  "get_articles (rundown_run e) =
     (case fetch_url e HOME_URL of
        None \<Rightarrow> []
      | Some html \<Rightarrow>
          List.map_filter
            (rundown_article e (utc_now (rundown_clock e))
               (minus_hours (utc_now (rundown_clock e)) rundown_WINDOW_HOURS)
               (isoformat (utc_now (rundown_clock e))))
            (take 15 (article_links (html_feed e html))))"
  by (simp add: rundown_run_def get_articles_def Let_def split: option.splits)

lemma rundown_member:
  "a \<in> set (get_articles (rundown_run e)) \<Longrightarrow>
     source a = ''rundown_ai'' \<and> article_id a = make_id (url a)"
  by (auto simp: get_articles_rundown_run map_filter_set split: option.splits
      dest: rundown_article_Some)

lemma rundown_count:
  "get_article_count (rundown_run e) = length (get_articles (rundown_run e))"
  by (simp add: rundown_run_def get_articles_def get_article_count_def Let_def split: option.splits)

lemma length_first_seen_le: "length (first_seen seen xs) \<le> length xs"
  by (induction xs arbitrary: seen) (auto intro: le_SucI)

lemma length_first_seen_less:
  "a \<in> set xs \<Longrightarrow> article_id a \<in> seen \<Longrightarrow> length (first_seen seen xs) < length xs"
proof (induction xs arbitrary: seen)
  case Nil
  then show ?case by simp
next
  case (Cons x xs)
  show ?case
  proof (cases "article_id x \<in> seen")
    case True
    then show ?thesis using length_first_seen_le [of seen xs] by simp
  next
    case False
    with Cons.prems have "a \<in> set xs" by auto
    moreover from Cons.prems have "article_id a \<in> insert (article_id x) seen" by simp
    ultimately have "length (first_seen (insert (article_id x) seen) xs) < length xs"
      by (rule Cons.IH)
    with False show ?thesis by simp
  qed
qed

lemma length_sort_desc: "length (sort_desc f xs) = length xs"
  by (metis mset_sort_desc size_mset)

lemma merge_and_dedup_pair:
  "merge_and_dedup [bb, rd] =
     sort_desc published_key
       (first_seen {} (get_articles bb)
          @ first_seen (article_id ` set (get_articles bb)) (get_articles rd))"
  by (simp add: merge_and_dedup_eq first_seen_append)

lemma merge_overlap_shorter:
  assumes "a \<in> set (get_articles bb)" and "b \<in> set (get_articles rd)"
    and "article_id a = article_id b"
  shows "length (merge_and_dedup [bb, rd]) < length (get_articles bb) + length (get_articles rd)"
proof -
  from assms(1) have "article_id a \<in> article_id ` set (get_articles bb)" by (rule imageI)
  with assms(3) have "article_id b \<in> article_id ` set (get_articles bb)" by simp
  with assms(2)
  have "length (first_seen (article_id ` set (get_articles bb)) (get_articles rd))
      < length (get_articles rd)"
    by (rule length_first_seen_less)
  moreover have "length (first_seen {} (get_articles bb)) \<le> length (get_articles bb)"
    by (rule length_first_seen_le)
  ultimately show ?thesis
    by (simp add: merge_and_dedup_pair length_sort_desc)
qed

lemma merge_and_dedup_distinct: "distinct (map article_id (merge_and_dedup results))"
  by (simp add: merge_and_dedup_eq distinct_sort_desc first_seen_distinct)

lemma merge_and_dedup_filter_first:
  assumes "a \<in> set (get_articles bb)"
  shows "\<exists>c. find (\<lambda>x. article_id x = article_id a) (get_articles bb) = Some c
           \<and> filter (\<lambda>x. article_id x = article_id a) (merge_and_dedup [bb, rd]) = [c]"
proof -
  from assms obtain c where c: "find (\<lambda>x. article_id x = article_id a) (get_articles bb) = Some c"
    by (cases "find (\<lambda>x. article_id x = article_id a) (get_articles bb)")
      (auto simp: find_None_iff)
  have "article_id a \<in> article_id ` set (get_articles bb)" using assms by simp
  then have "filter (\<lambda>x. article_id x = article_id a)
      (first_seen {} (get_articles bb)
          @ first_seen (article_id ` set (get_articles bb)) (get_articles rd)) = [c]"
    using c by (simp add: first_seen_filter)
  then have "filter (\<lambda>x. article_id x = article_id a) (merge_and_dedup [bb, rd]) = [c]"
    unfolding merge_and_dedup_pair by (rule filter_sort_desc_single)
  with c show ?thesis by blast
qed








lemma mf_articles_run:
  "mf_articles (run e) = merge_and_dedup [bens_bites_run e, rundown_run e]"
  by (simp add: run_def merge_def Let_def)




lemma length_capped_length: "length (length_capped text) \<le> 303"
  by (simp add: length_capped_def)





section \<open>Properties of the article page parser and of the date parsers\<close>



lemma accepted_meta_times_Cons:
  "accepted_meta_times (ev # events) =
     (case published_time_tag ev of
        None \<Rightarrow> []
      | Some c \<Rightarrow> if c \<noteq> [] \<and> py_in ''202'' c then [c] else [])
     @ accepted_meta_times events"
  by (simp add: accepted_meta_times_def split: option.splits)







lemma format_rx_article_formats:
  "f \<in> set article_formats \<Longrightarrow> format_rx zones f = format_rx [] f"
  unfolding article_formats_def set_simps insert_iff empty_iff
  by (elim disjE; simp add: directive_rx_def py_isspace_def)

lemma strptime_article_formats:
  assumes "f \<in> set article_formats"
  shows "strptime zones s f = strptime [] s f"
  unfolding strptime_def format_rx_article_formats [OF assms, of zones] ..

lemma first_parse_zones:
  "(\<And>f. f \<in> set fmts \<Longrightarrow> strptime zones s f = strptime [] s f) \<Longrightarrow>
     first_parse post zones s fmts = first_parse post [] s fmts"
  by (induction fmts) (simp_all split: option.splits)

lemma parse_article_date_zones: "parse_article_date zones raw = parse_article_date [] raw"
  unfolding parse_article_date_def
  by (rule first_parse_zones) (rule strptime_article_formats)

lemma first_parse_find:
  "first_parse post zones s fmts =
     (case find (\<lambda>f. strptime zones s f \<noteq> None) fmts of
        None \<Rightarrow> None
      | Some f \<Rightarrow> map_option post (strptime zones s f))"
  by (induction fmts) (auto split: option.splits)

lemma first_parse_None:
  "(first_parse post zones s fmts = None) = (\<forall>f \<in> set fmts. strptime zones s f = None)"
  by (induction fmts) (auto split: option.splits)

lemma ensure_aware_tzinfo: "tzinfo (ensure_aware dt) \<noteq> None"
  by (simp add: ensure_aware_def replace_tzinfo_utc_def)

lemma first_parse_post:
  "first_parse post zones s fmts = Some dt \<Longrightarrow> \<exists>z. dt = post z"
  by (induction fmts) (auto split: option.splits)

lemma parse_article_date_aware:
  assumes "parse_article_date zones s = Some dt"
  shows "tzinfo dt \<noteq> None"
proof -
  from assms obtain z where "dt = ensure_aware z"
    unfolding parse_article_date_def by (blast dest: first_parse_post)
  then show ?thesis by (simp add: ensure_aware_tzinfo)
qed

lemma parse_item_published_at:
  "parse_item e scraped cutoff item = Some a \<Longrightarrow>
     \<exists>p. parse_rss_date (tzname e) (the (element_text (item_pubDate item))) = Some p
        \<and> published_at a = Some (isoformat (ensure_aware p))"
  by (auto simp: parse_item_def Let_def split: if_splits option.splits bool.splits)

section \<open>The example run, evaluated\<close>

lemma example_utc_now:
  "utc_now 1771668000000000 = \<lparr>wall_us = 63907264800000000, tzinfo = Some 0\<rparr>"
  by (simp add: utc_now_def epoch_wall_us_def ymd2ord_def days_before_year_def
      days_before_month_def is_leap_def us_per_day_def us_per_hour_def us_per_second_def)

lemma example_parse_rss_date:
  "parse_rss_date [''utc''] ''Sat, 21 Feb 2026 09:00:00 GMT'' =
     Some \<lparr>wall_us = 63907261200000000, tzinfo = None\<rparr>"
  by code_simp

lemma example_parse_article_date_utc:
  "parse_article_date [] ''Feb 20, 2026'' =
     Some \<lparr>wall_us = 63907142400000000, tzinfo = Some 0\<rparr>"
  by code_simp

lemma example_parse_article_date:
  "parse_article_date zones ''Feb 20, 2026'' =
     Some \<lparr>wall_us = 63907142400000000, tzinfo = Some 0\<rparr>"
  by (simp add: parse_article_date_zones [of zones] example_parse_article_date_utc)

lemma example_isoformat_now:
  "isoformat \<lparr>wall_us = 63907264800000000, tzinfo = Some 0\<rparr> = ''2026-02-21T10:00:00+00:00''"
  by code_simp

lemma example_isoformat_item:
  "isoformat \<lparr>wall_us = 63907261200000000, tzinfo = Some 0\<rparr> = ''2026-02-21T09:00:00+00:00''"
  by code_simp

lemma example_isoformat_page:
  "isoformat \<lparr>wall_us = 63907142400000000, tzinfo = Some 0\<rparr> = ''2026-02-20T00:00:00+00:00''"
  by code_simp

lemma example_meta_feed:
  "meta_feed example_page =
     \<lparr>meta_title = Some (Some ''Agents at work | The Rundown AI''), meta_description = None,
      published_at_meta = None, body_dates = [''Feb 20, 2026'']\<rparr>"
  by code_simp

lemma example_article_links:
  "article_links [StartTag ''a'' [(''href'', Some ''/p/agents-at-work'')]] = [example_url]"
  by code_simp

lemma example_title:
  "strip (py_replace '' | The Rundown AI'' [] ''Agents at work | The Rundown AI'') = ''Agents at work''"
  by code_simp

lemma example_strips:
  "strip ''Agents at work'' = ''Agents at work''"
  "strip ''https://www.therundown.ai/p/agents-at-work'' = example_url"
  "strip ''AI'' = ''AI''"
  "strip [] = []"
  "get_data [Data ''Hello''] = ''Hello''"
  by code_simp+

lemma example_env_fields:
  "tzname example_env = [''utc'']"
  "orchestrator_clock example_env = 1771668000000000"
  "bens_bites_clock example_env = 1771668000000000"
  "parse_articles_clock example_env = 1771668000000000"
  "rundown_clock example_env = 1771668000000000"
  "urlopen example_env RSS_URL = Some ''rss''"
  "urlopen example_env HOME_URL = Some ''home''"
  "urlopen example_env example_url = Some ''page''"
  "et_fromstring example_env s = Root (Some [example_item])"
  "html_feed example_env ''home'' = [StartTag ''a'' [(''href'', Some ''/p/agents-at-work'')]]"
  "html_feed example_env ''page'' = example_page"
  "html_feed example_env ''<p>Hello</p>'' = [Data ''Hello'']"
  "example_url \<noteq> []"
  by (simp_all add: example_env_def RSS_URL_def HOME_URL_def example_url_def)

lemma example_parse_item:
  "parse_item example_env ''2026-02-21T10:00:00+00:00''
     \<lparr>wall_us = 63907092000000000, tzinfo = Some 0\<rparr> example_item =
   Some example_bens_bites_article"
  by (simp add: parse_item_def example_item_def stripped_text_def element_text_def truthy_def
      example_strips example_env_fields example_parse_rss_date ensure_aware_def
      replace_tzinfo_utc_def dt_less_def utc_us_def example_isoformat_item strip_html_def
      example_bens_bites_article_def Let_def)

lemma example_bens_bites_articles:
  "get_articles (bens_bites_run example_env) = [example_bens_bites_article]"
  by (simp add: get_articles_bens_bites_run fetch_rss_def example_env_fields parse_articles_def
      example_utc_now example_isoformat_now minus_hours_def WINDOW_HOURS_def us_per_hour_def
      us_per_second_def example_parse_item)

lemma example_scrape:
  assumes "urlopen e u = Some html" and "html \<noteq> []" and "html_feed e html = example_page"
  shows "scrape_article_metadata e u =
     Inr (Some \<lparr>am_title = ''Agents at work'', am_description = [],
                 am_published_at = Some \<lparr>wall_us = 63907142400000000, tzinfo = Some 0\<rparr>\<rparr>)"
  using assms
  by (simp add: scrape_article_metadata_def fetch_url_def example_meta_feed
      get_best_date_def truthy_def example_title example_strips example_parse_article_date Let_def)

lemma example_rundown_run:
  assumes "rundown_clock e = 1771668000000000"
    and "urlopen e HOME_URL = Some ''home''" and "urlopen e example_url = Some ''page''"
    and "html_feed e ''home'' = [StartTag ''a'' [(''href'', Some ''/p/agents-at-work'')]]"
    and "html_feed e ''page'' = example_page"
  shows "get_articles (rundown_run e) = [example_rundown_article]"
  using assms
  by (simp add: get_articles_rundown_run fetch_url_def example_article_links
      example_utc_now example_isoformat_now minus_hours_def rundown_WINDOW_HOURS_def
      us_per_hour_def us_per_second_def rundown_article_def
      example_scrape [where html = "''page''"] ensure_aware_def dt_less_def utc_us_def example_isoformat_page rundown_make_id_eq
      example_rundown_article_def)

lemma example_rundown_articles:
  "get_articles (rundown_run example_env) = [example_rundown_article]"
  by (rule example_rundown_run) (simp_all add: example_env_fields)



lemma example_article_fields:
  "article_id example_bens_bites_article = make_id example_url"
  "article_id example_rundown_article = make_id example_url"
  "url example_bens_bites_article = example_url"
  "url example_rundown_article = example_url"
  "source example_bens_bites_article = ''bens_bites''"
  "summary example_bens_bites_article = Some ''Hello''"
  by (simp_all add: example_bens_bites_article_def example_rundown_article_def)

lemma example_merged_articles:
  "mf_articles (run example_env) = [example_bens_bites_article]"
  by (simp add: mf_articles_run merge_and_dedup_eq example_bens_bites_articles
      example_rundown_articles example_article_fields sort_desc_def)






lemma example_unparseable: "parse_rss_date [''utc''] ''yesterday'' = None"
  by code_simp

lemma example_unparseable_article: "parse_article_date [] ''yesterday'' = None"
  by code_simp








text \<open>
  C10. In the merged feed \<open>article_count\<close> is the length of the deduplicated article
  list, and \<open>sources\<close> holds the article count of each adapter's own result, before
  deduplication; so when an article of the Ben's Bites result and one of the Rundown result
  have the same URL, the counts in \<open>sources\<close> add up to more than \<open>article_count\<close>.
\<close>

theorem merged_counts:
  "mf_article_count (run e) = length (mf_articles (run e))
   \<and> mf_articles (run e) = merge_and_dedup [bens_bites_run e, rundown_run e]
   \<and> mf_sources (run e) =
       [(''bens_bites'', length (get_articles (bens_bites_run e))),
        (''rundown_ai'', length (get_articles (rundown_run e)))]
   \<and> mf_article_count (run e) \<le> sum_list (map snd (mf_sources (run e)))
   \<and> (a \<in> set (get_articles (bens_bites_run e)) \<and> b \<in> set (get_articles (rundown_run e))
        \<and> url a = url b \<longrightarrow>
        mf_article_count (run e) < sum_list (map snd (mf_sources (run e))))"
proof -
  have count: "mf_article_count (run e) = length (mf_articles (run e))"
    by (simp add: run_def merge_def Let_def)
  have sources: "mf_sources (run e) =
       [(''bens_bites'', length (get_articles (bens_bites_run e))),
        (''rundown_ai'', length (get_articles (rundown_run e)))]"
    by (simp add: run_def merge_def Let_def bens_bites_count rundown_count)
  have le: "length (merge_and_dedup [bens_bites_run e, rundown_run e])
      \<le> length (get_articles (bens_bites_run e)) + length (get_articles (rundown_run e))"
    using length_first_seen_le [of "{}" "get_articles (bens_bites_run e) @ get_articles (rundown_run e)"]
    by (simp add: merge_and_dedup_eq length_sort_desc)
  have less: "length (merge_and_dedup [bens_bites_run e, rundown_run e])
      < length (get_articles (bens_bites_run e)) + length (get_articles (rundown_run e))"
    if "a \<in> set (get_articles (bens_bites_run e))" "b \<in> set (get_articles (rundown_run e))"
      "url a = url b"
  proof -
    from that have "article_id a = article_id b"
      by (simp add: bens_bites_member rundown_member)
    with that(1,2) show ?thesis by (rule merge_overlap_shorter)
  qed
  from count sources le less show ?thesis
    by (simp add: mf_articles_run)
qed

theorem merged_counts_witness:
  "example_bens_bites_article \<in> set (get_articles (bens_bites_run example_env))
   \<and> example_rundown_article \<in> set (get_articles (rundown_run example_env))
   \<and> url example_bens_bites_article = url example_rundown_article
   \<and> mf_article_count (run example_env) = 1
   \<and> mf_sources (run example_env) = [(''bens_bites'', 1), (''rundown_ai'', 1)]
   \<and> mf_article_count (run example_env) < sum_list (map snd (mf_sources (run example_env)))"
proof -
  have a: "example_bens_bites_article \<in> set (get_articles (bens_bites_run example_env))"
    by (simp add: example_bens_bites_articles)
  have b: "example_rundown_article \<in> set (get_articles (rundown_run example_env))"
    by (simp add: example_rundown_articles)
  have u: "url example_bens_bites_article = url example_rundown_article"
    by (simp add: example_article_fields)
  note inst = merged_counts [of example_env example_bens_bites_article example_rundown_article]
  from inst a b u
  have less: "mf_article_count (run example_env) < sum_list (map snd (mf_sources (run example_env)))"
    by blast
  from inst have "mf_article_count (run example_env) = length (mf_articles (run example_env))"
    by blast
  then have count: "mf_article_count (run example_env) = 1"
    by (simp add: example_merged_articles)
  from inst have "mf_sources (run example_env) =
       [(''bens_bites'', length (get_articles (bens_bites_run example_env))),
        (''rundown_ai'', length (get_articles (rundown_run example_env)))]"
    by blast
  then have sources: "mf_sources (run example_env) = [(''bens_bites'', 1), (''rundown_ai'', 1)]"
    by (simp add: example_bens_bites_articles example_rundown_articles)
  from a b u count sources less show ?thesis by blast
qed

text \<open>
  C2. When the results of the two adapters each hold an article with the same URL, the two
  articles have the same id and the merged output holds exactly one article with that id:
  the first article with that id in the result of the Ben's Bites adapter, which runs
  first. Every id occurs once in the merged output.
\<close>

theorem merged_ids_unique_first_seen:
  "distinct (map article_id (mf_articles (run e)))
   \<and> (a \<in> set (get_articles (bens_bites_run e)) \<and> b \<in> set (get_articles (rundown_run e))
        \<and> url a = url b \<longrightarrow>
        article_id a = article_id b
        \<and> (\<exists>c. find (\<lambda>x. article_id x = article_id a) (get_articles (bens_bites_run e)) = Some c
                \<and> filter (\<lambda>x. article_id x = article_id a) (mf_articles (run e)) = [c]
                \<and> source c = ''bens_bites''))"
proof -
  have "distinct (map article_id (mf_articles (run e)))"
    by (simp add: mf_articles_run merge_and_dedup_distinct)
  moreover have "article_id a = article_id b
        \<and> (\<exists>c. find (\<lambda>x. article_id x = article_id a) (get_articles (bens_bites_run e)) = Some c
                \<and> filter (\<lambda>x. article_id x = article_id a) (mf_articles (run e)) = [c]
                \<and> source c = ''bens_bites'')"
    if "a \<in> set (get_articles (bens_bites_run e))" "b \<in> set (get_articles (rundown_run e))"
      "url a = url b"
  proof -
    from that have ids: "article_id a = article_id b"
      by (simp add: bens_bites_member rundown_member)
    from that(1) obtain c
      where c: "find (\<lambda>x. article_id x = article_id a) (get_articles (bens_bites_run e)) = Some c"
        "filter (\<lambda>x. article_id x = article_id a)
           (merge_and_dedup [bens_bites_run e, rundown_run e]) = [c]"
      using merge_and_dedup_filter_first by blast
    from c(1) have "c \<in> set (get_articles (bens_bites_run e))"
      by (auto simp: find_Some_iff)
    then have "source c = ''bens_bites''" by (simp add: bens_bites_member)
    with ids c show ?thesis by (auto simp: mf_articles_run)
  qed
  ultimately show ?thesis by blast
qed

theorem merged_ids_unique_first_seen_witness:
  "example_bens_bites_article \<in> set (get_articles (bens_bites_run example_env))
   \<and> example_rundown_article \<in> set (get_articles (rundown_run example_env))
   \<and> url example_bens_bites_article = url example_rundown_article
   \<and> article_id example_bens_bites_article = article_id example_rundown_article
   \<and> filter (\<lambda>x. article_id x = article_id example_bens_bites_article)
         (mf_articles (run example_env)) = [example_bens_bites_article]
   \<and> distinct (map article_id (mf_articles (run example_env)))"
proof -
  have a: "example_bens_bites_article \<in> set (get_articles (bens_bites_run example_env))"
    by (simp add: example_bens_bites_articles)
  have b: "example_rundown_article \<in> set (get_articles (rundown_run example_env))"
    by (simp add: example_rundown_articles)
  have u: "url example_bens_bites_article = url example_rundown_article"
    by (simp add: example_article_fields)
  note inst = merged_ids_unique_first_seen [of example_env example_bens_bites_article
      example_rundown_article]
  from inst a b u
  have ids: "article_id example_bens_bites_article = article_id example_rundown_article"
    by blast
  from inst a b u obtain c
    where c: "find (\<lambda>x. article_id x = article_id example_bens_bites_article)
                (get_articles (bens_bites_run example_env)) = Some c"
      "filter (\<lambda>x. article_id x = article_id example_bens_bites_article)
         (mf_articles (run example_env)) = [c]"
    by blast
  from c(1) have "c = example_bens_bites_article"
    by (simp add: example_bens_bites_articles)
  with c(2) have one: "filter (\<lambda>x. article_id x = article_id example_bens_bites_article)
         (mf_articles (run example_env)) = [example_bens_bites_article]"
    by simp
  from inst have d: "distinct (map article_id (mf_articles (run example_env)))"
    by blast
  from a b u ids one d show ?thesis by blast
qed



text \<open>
  C7, as stated, fails for \<open>parse_rss_date\<close>: it returns the result of \<open>strptime\<close>
  as it is, and for a date with a zone name (\<open>%Z\<close>) that result is naive.
\<close>

theorem parse_rss_date_naive_counterexample:
  "parse_rss_date [''utc''] ''Sat, 21 Feb 2026 09:00:00 GMT'' \<noteq> None
   \<and> tzinfo (the (parse_rss_date [''utc''] ''Sat, 21 Feb 2026 09:00:00 GMT'')) = None"
  by (simp add: example_parse_rss_date)

text \<open>
  C7, amended. Both date parsers try their formats in order and return the first
  successful parse, or \<open>None\<close> when every format fails; they raise nothing.
  \<open>parse_article_date\<close> makes a naive result UTC before it returns it.
  \<open>parse_rss_date\<close> returns the parse unchanged, and its caller \<open>parse_articles\<close>
  makes a naive date UTC before it compares and stores it.
\<close>

theorem date_parsers_first_success:
  "parse_rss_date zones s =
     (case find (\<lambda>f. strptime zones (strip s) f \<noteq> None) rss_formats of
        None \<Rightarrow> None
      | Some f \<Rightarrow> strptime zones (strip s) f)
   \<and> parse_article_date zones s =
     (case find (\<lambda>f. strptime zones (rstrip_chars '','' (strip s)) f \<noteq> None) article_formats of
        None \<Rightarrow> None
      | Some f \<Rightarrow> map_option ensure_aware (strptime zones (rstrip_chars '','' (strip s)) f))
   \<and> (parse_rss_date zones s = None) = (\<forall>f \<in> set rss_formats. strptime zones (strip s) f = None)
   \<and> (parse_article_date zones s = None) =
       (\<forall>f \<in> set article_formats. strptime zones (rstrip_chars '','' (strip s)) f = None)
   \<and> (parse_article_date zones s = Some dt \<longrightarrow> tzinfo dt \<noteq> None)
   \<and> ensure_aware naive = (if tzinfo naive = None then naive\<lparr>tzinfo := Some 0\<rparr> else naive)
   \<and> (parse_item e scraped cutoff item = Some a \<longrightarrow>
        (\<exists>p. parse_rss_date (tzname e) (the (element_text (item_pubDate item))) = Some p
            \<and> published_at a = Some (isoformat (ensure_aware p))))"
proof -
  have "parse_rss_date zones s =
     (case find (\<lambda>f. strptime zones (strip s) f \<noteq> None) rss_formats of
        None \<Rightarrow> None
      | Some f \<Rightarrow> strptime zones (strip s) f)"
    by (simp add: parse_rss_date_def first_parse_find option.map_ident split: option.splits)
  moreover have "parse_article_date zones s =
     (case find (\<lambda>f. strptime zones (rstrip_chars '','' (strip s)) f \<noteq> None) article_formats of
        None \<Rightarrow> None
      | Some f \<Rightarrow> map_option ensure_aware (strptime zones (rstrip_chars '','' (strip s)) f))"
    by (simp add: parse_article_date_def first_parse_find)
  moreover have "(parse_rss_date zones s = None) =
      (\<forall>f \<in> set rss_formats. strptime zones (strip s) f = None)"
    by (simp add: parse_rss_date_def first_parse_None)
  moreover have "(parse_article_date zones s = None) =
       (\<forall>f \<in> set article_formats. strptime zones (rstrip_chars '','' (strip s)) f = None)"
    by (simp add: parse_article_date_def first_parse_None)
  moreover have "parse_article_date zones s = Some dt \<longrightarrow> tzinfo dt \<noteq> None"
    using parse_article_date_aware by blast
  moreover have "ensure_aware naive = (if tzinfo naive = None then naive\<lparr>tzinfo := Some 0\<rparr> else naive)"
    by (simp add: ensure_aware_def replace_tzinfo_utc_def)
  moreover have "parse_item e scraped cutoff item = Some a \<longrightarrow>
        (\<exists>p. parse_rss_date (tzname e) (the (element_text (item_pubDate item))) = Some p
            \<and> published_at a = Some (isoformat (ensure_aware p)))"
    using parse_item_published_at by blast
  ultimately show ?thesis by blast
qed

theorem date_parsers_first_success_witness:
  "parse_rss_date [''utc''] ''yesterday'' = None
   \<and> list_all (\<lambda>f. strptime [''utc''] (strip ''yesterday'') f = None) rss_formats
   \<and> list_all (\<lambda>f. strptime [''utc''] (rstrip_chars '','' (strip ''yesterday'')) f = None)
         article_formats
   \<and> parse_article_date [''utc''] ''Feb 20, 2026'' =
       Some \<lparr>wall_us = 63907142400000000, tzinfo = Some 0\<rparr>
   \<and> tzinfo \<lparr>wall_us = 63907142400000000, tzinfo = Some 0\<rparr> \<noteq> None
   \<and> parse_item example_env ''2026-02-21T10:00:00+00:00''
         \<lparr>wall_us = 63907092000000000, tzinfo = Some 0\<rparr> example_item =
       Some example_bens_bites_article
   \<and> parse_rss_date (tzname example_env) (the (element_text (item_pubDate example_item))) =
       Some \<lparr>wall_us = 63907261200000000, tzinfo = None\<rparr>
   \<and> published_at example_bens_bites_article =
       Some (isoformat (ensure_aware \<lparr>wall_us = 63907261200000000, tzinfo = None\<rparr>))"
proof -
  let ?cutoff = "\<lparr>wall_us = 63907092000000000, tzinfo = Some 0\<rparr>"
  let ?dt = "\<lparr>wall_us = 63907142400000000, tzinfo = Some 0\<rparr>"
  note none = date_parsers_first_success [of "[''utc'']" "''yesterday''" ?dt "?dt"
      example_env "''2026-02-21T10:00:00+00:00''" ?cutoff example_item example_bens_bites_article]
  note some = date_parsers_first_success [of "[''utc'']" "''Feb 20, 2026''" ?dt "?dt"
      example_env "''2026-02-21T10:00:00+00:00''" ?cutoff example_item example_bens_bites_article]
  have "\<forall>f \<in> set rss_formats. strptime [''utc''] (strip ''yesterday'') f = None"
    using none example_unparseable by blast
  then have a: "list_all (\<lambda>f. strptime [''utc''] (strip ''yesterday'') f = None) rss_formats"
    by (simp add: list_all_iff)
  have "parse_article_date [''utc''] ''yesterday'' = None"
    by (simp add: parse_article_date_zones [of "[''utc'']"] example_unparseable_article)
  with none
  have "\<forall>f \<in> set article_formats. strptime [''utc''] (rstrip_chars '','' (strip ''yesterday'')) f = None"
    by blast
  then have b: "list_all (\<lambda>f. strptime [''utc''] (rstrip_chars '','' (strip ''yesterday'')) f = None)
      article_formats"
    by (simp add: list_all_iff)
  have c: "parse_article_date [''utc''] ''Feb 20, 2026'' = Some ?dt"
    by (rule example_parse_article_date)
  with some have d: "tzinfo ?dt \<noteq> None" by blast
  have p: "parse_rss_date (tzname example_env) (the (element_text (item_pubDate example_item))) =
       Some \<lparr>wall_us = 63907261200000000, tzinfo = None\<rparr>"
    by (simp add: example_env_fields example_item_def element_text_def example_parse_rss_date)
  from some example_parse_item obtain q
    where q: "parse_rss_date (tzname example_env) (the (element_text (item_pubDate example_item))) = Some q"
      "published_at example_bens_bites_article = Some (isoformat (ensure_aware q))"
    by blast
  from q(1) p have "q = \<lparr>wall_us = 63907261200000000, tzinfo = None\<rparr>" by simp
  with q(2) have s: "published_at example_bens_bites_article =
       Some (isoformat (ensure_aware \<lparr>wall_us = 63907261200000000, tzinfo = None\<rparr>))"
    by simp
  from example_unparseable a b c d example_parse_item p s show ?thesis by blast
qed

end
